theory Spec2Isabelle
  imports Complex_Main
begin

section \<open>JavaScript values used by the streaming transport\<close>

text \<open>
  The message handler of \<^verbatim>\<open>stock-ws.ts\<close> uses three pieces of JavaScript semantics:
  truthiness of a field (\<^verbatim>\<open>!message.p\<close>), the conversion \<^verbatim>\<open>Number(x)\<close> and the
  arithmetic \<^verbatim>\<open>(x + y) / 2\<close> on Number values. They are modelled here as ECMAScript
  defines them, for strings of ASCII characters.

  A Number is an IEEE 754 binary64 value. A finite value is kept as the rational it
  denotes; \<open>Fin 0\<close> is \<open>+0\<close> and \<open>NegZero\<close> is \<open>-0\<close>.
\<close>

datatype jsnum = NaN | PosInf | NegInf | NegZero | Fin rat

text \<open>Number of binary digits of a positive integer (0 for the others).\<close>

function bitlen :: "int \<Rightarrow> int" where
  "bitlen n = (if n \<le> 0 then 0 else 1 + bitlen (n div 2))"
  by pat_completeness auto
termination
  by (relation "measure nat") auto

declare bitlen.simps [simp del]

definition pow2 :: "int \<Rightarrow> rat" where
  "pow2 e = (if 0 \<le> e then of_int (2 ^ nat e) else 1 / of_int (2 ^ nat (- e)))"

definition pow10 :: "int \<Rightarrow> rat" where
  "pow10 e = (if 0 \<le> e then of_int (10 ^ nat e) else 1 / of_int (10 ^ nat (- e)))"

text \<open>\<open>ilog2 q\<close> is the binary exponent of a positive rational: \<open>2 ^ ilog2 q \<le> q < 2 ^ (ilog2 q + 1)\<close>.\<close>

definition ilog2 :: "rat \<Rightarrow> int" where
  "ilog2 q =
     (let (n, d) = quotient_of q;
          e0 = bitlen n - bitlen d
      in if pow2 e0 \<le> q then e0 else e0 - 1)"

text \<open>Rounding to the nearest integer, ties to the even one.\<close>

definition round_ties_even :: "rat \<Rightarrow> int" where
  "round_ties_even q =
     (let f = \<lfloor>q\<rfloor>; d = q - of_int f
      in if d < 1 / 2 then f
         else if 1 / 2 < d then f + 1
         else if even f then f else f + 1)"

text \<open>
  The binary64 value nearest to a positive rational (53 significant bits, least
  exponent \<open>-1022\<close>, subnormals below it); \<open>None\<close> when the rounded value reaches
  \<open>2 ^ 1024\<close>, which is the overflow to an infinity.
\<close>

definition round_mag :: "rat \<Rightarrow> rat option" where
  "round_mag q =
     (let e = max (ilog2 q) (- 1022) - 52;
          v = of_int (round_ties_even (q / pow2 e)) * pow2 e
      in if pow2 1024 \<le> v then None else Some v)"

definition round64 :: "rat \<Rightarrow> jsnum" where
  "round64 q =
     (if q = 0 then Fin 0
      else case round_mag \<bar>q\<bar> of
             None \<Rightarrow> (if q < 0 then NegInf else PosInf)
           | Some v \<Rightarrow>
               (if v = 0 then (if q < 0 then NegZero else Fin 0)
                else Fin (if q < 0 then - v else v)))"

text \<open>\<^verbatim>\<open>x + y\<close> on Numbers (ECMAScript Number::add).\<close>

fun js_add :: "jsnum \<Rightarrow> jsnum \<Rightarrow> jsnum" where
  "js_add NaN y = NaN"
| "js_add x NaN = NaN"
| "js_add PosInf NegInf = NaN"
| "js_add NegInf PosInf = NaN"
| "js_add PosInf y = PosInf"
| "js_add x PosInf = PosInf"
| "js_add NegInf y = NegInf"
| "js_add x NegInf = NegInf"
| "js_add NegZero y = y"
| "js_add x NegZero = x"
| "js_add (Fin x) (Fin y) = round64 (x + y)"

fun is_neg :: "jsnum \<Rightarrow> bool" where
  "is_neg NegInf = True"
| "is_neg NegZero = True"
| "is_neg (Fin q) = (q < 0)"
| "is_neg x = False"

fun is_inf :: "jsnum \<Rightarrow> bool" where
  "is_inf PosInf = True"
| "is_inf NegInf = True"
| "is_inf x = False"

fun is_zero :: "jsnum \<Rightarrow> bool" where
  "is_zero NegZero = True"
| "is_zero (Fin q) = (q = 0)"
| "is_zero x = False"

fun fin_val :: "jsnum \<Rightarrow> rat" where
  "fin_val (Fin q) = q"
| "fin_val x = 0"

text \<open>\<^verbatim>\<open>x / y\<close> on Numbers (ECMAScript Number::divide).\<close>

definition js_div :: "jsnum \<Rightarrow> jsnum \<Rightarrow> jsnum" where
  "js_div x y =
     (if x = NaN \<or> y = NaN then NaN
      else if is_inf x then
        (if is_inf y then NaN else if is_neg x = is_neg y then PosInf else NegInf)
      else if is_inf y then (if is_neg x = is_neg y then Fin 0 else NegZero)
      else if is_zero y then
        (if is_zero x then NaN else if is_neg x = is_neg y then PosInf else NegInf)
      else if is_zero x then (if is_neg x = is_neg y then Fin 0 else NegZero)
      else round64 (fin_val x / fin_val y))"

text \<open>A rational is a binary64 value when rounding leaves it as it is.\<close>

definition representable :: "rat \<Rightarrow> bool" where
  "representable q = (round64 q = Fin q)"

subsection \<open>Strings, truthiness and \<^verbatim>\<open>Number(x)\<close>\<close>

text \<open>
  A field of a parsed provider message is either absent (\<^verbatim>\<open>undefined\<close>, \<open>None\<close>) or
  a string. \<^verbatim>\<open>!x\<close> is true for \<^verbatim>\<open>undefined\<close> and for the empty string.
\<close>

type_synonym field = "string option"

definition truthy :: "field \<Rightarrow> bool" where
  "truthy x = (case x of None \<Rightarrow> False | Some str \<Rightarrow> str \<noteq> [])"

definition is_ws :: "char \<Rightarrow> bool" where
  "is_ws c = (of_char c \<in> {9, 10, 11, 12, 13, 32 :: nat})"

definition trim :: "string \<Rightarrow> string" where
  "trim str = rev (dropWhile is_ws (rev (dropWhile is_ws str)))"

text \<open>The value of a digit in a base up to 16; \<open>None\<close> for any other character.\<close>

definition digit_of :: "nat \<Rightarrow> char \<Rightarrow> nat option" where
  "digit_of radix c =
     (let n = (of_char c :: nat);
          v = (if 48 \<le> n \<and> n \<le> 57 then Some (n - 48)
               else if 97 \<le> n \<and> n \<le> 102 then Some (n - 87)
               else if 65 \<le> n \<and> n \<le> 70 then Some (n - 55)
               else None)
      in case v of None \<Rightarrow> None | Some k \<Rightarrow> if k < radix then Some k else None)"

definition is_digit :: "char \<Rightarrow> bool" where
  "is_digit c = (digit_of 10 c \<noteq> None)"

text \<open>
  The mathematical value of a non-empty string of digits of the radix; \<open>None\<close> for
  the empty string and for a string with any other character.
\<close>

fun digits_acc :: "nat \<Rightarrow> int \<Rightarrow> string \<Rightarrow> int option" where
  "digits_acc radix acc [] = Some acc"
| "digits_acc radix acc (c # cs) =
     (case digit_of radix c of
        None \<Rightarrow> None
      | Some k \<Rightarrow> digits_acc radix (acc * int radix + int k) cs)"

definition digits_value :: "nat \<Rightarrow> string \<Rightarrow> int option" where
  "digits_value radix cs = (if cs = [] then None else digits_acc radix 0 cs)"

text \<open>ExponentPart, or nothing: \<^verbatim>\<open>e\<close> or \<^verbatim>\<open>E\<close>, an optional sign, decimal digits.\<close>

definition exponent_part :: "string \<Rightarrow> int option" where
  "exponent_part cs =
     (case cs of
        [] \<Rightarrow> Some 0
      | c # ds \<Rightarrow>
          if c = CHR ''e'' \<or> c = CHR ''E'' then
            (case ds of
               [] \<Rightarrow> None
             | d # es \<Rightarrow>
                 if d = CHR ''-'' then map_option uminus (digits_value 10 es)
                 else if d = CHR ''+'' then digits_value 10 es
                 else digits_value 10 ds)
          else None)"

text \<open>
  StrUnsignedDecimalLiteral: \<^verbatim>\<open>Infinity\<close>, or digits with an optional fraction and an
  optional exponent, with at least one digit before the exponent.
\<close>

datatype mv = MVInfinity | MV rat

definition unsigned_decimal :: "string \<Rightarrow> mv option" where
  "unsigned_decimal cs =
     (if cs = ''Infinity'' then Some MVInfinity
      else
        let ip = takeWhile is_digit cs;
            r1 = dropWhile is_digit cs;
            fp = (case r1 of [] \<Rightarrow> [] | c # r \<Rightarrow> if c = CHR ''.'' then takeWhile is_digit r else []);
            r2 = (case r1 of [] \<Rightarrow> [] | c # r \<Rightarrow> if c = CHR ''.'' then dropWhile is_digit r else r1)
        in if ip = [] \<and> fp = [] then None
           else case (digits_value 10 (ip @ fp), exponent_part r2) of
                  (Some n, Some ex) \<Rightarrow> Some (MV (of_int n * pow10 (ex - int (length fp))))
                | _ \<Rightarrow> None)"

text \<open>NonDecimalIntegerLiteral: \<^verbatim>\<open>0x\<close>, \<^verbatim>\<open>0o\<close> or \<^verbatim>\<open>0b\<close> (either case) and digits.\<close>

definition non_decimal :: "string \<Rightarrow> int option" where
  "non_decimal cs =
     (case cs of
        c # d # ds \<Rightarrow>
          if c = CHR ''0'' then
            (if d = CHR ''x'' \<or> d = CHR ''X'' then digits_value 16 ds
             else if d = CHR ''o'' \<or> d = CHR ''O'' then digits_value 8 ds
             else if d = CHR ''b'' \<or> d = CHR ''B'' then digits_value 2 ds
             else None)
          else None
      | _ \<Rightarrow> None)"

definition signed_mv :: "bool \<Rightarrow> mv option \<Rightarrow> jsnum" where
  "signed_mv neg v =
     (case v of
        None \<Rightarrow> NaN
      | Some MVInfinity \<Rightarrow> (if neg then NegInf else PosInf)
      | Some (MV q) \<Rightarrow> (if neg then (if q = 0 then NegZero else round64 (- q)) else round64 q))"

text \<open>StringToNumber: white space is trimmed, the empty string is \<open>+0\<close>, a string
  that is no StringNumericLiteral is \<open>NaN\<close>, and a literal has the binary64 value
  nearest to its mathematical value (the rounding of V8; ECMAScript lets an engine
  round a decimal literal of more than 20 significant digits less exactly).\<close>

definition StringToNumber :: "string \<Rightarrow> jsnum" where
  "StringToNumber str =
     (let cs = trim str
      in if cs = [] then Fin 0
         else case non_decimal cs of
                Some n \<Rightarrow> round64 (of_int n)
              | None \<Rightarrow>
                  (case cs of
                     [] \<Rightarrow> Fin 0
                   | c # ds \<Rightarrow>
                       if c = CHR ''-'' then signed_mv True (unsigned_decimal ds)
                       else if c = CHR ''+'' then signed_mv False (unsigned_decimal ds)
                       else signed_mv False (unsigned_decimal cs)))"

text \<open>\<^verbatim>\<open>Number(x)\<close>: \<^verbatim>\<open>undefined\<close> converts to \<open>NaN\<close>, a string by StringToNumber.\<close>

definition Number :: "field \<Rightarrow> jsnum" where
  "Number x = (case x of None \<Rightarrow> NaN | Some str \<Rightarrow> StringToNumber str)"

text \<open>
  \<^verbatim>\<open>`${x}`\<close>: the string itself, and \<^verbatim>\<open>"undefined"\<close> for an absent value.
\<close>

definition template_literal :: "field \<Rightarrow> string" where
  "template_literal x = (case x of None \<Rightarrow> ''undefined'' | Some str \<Rightarrow> str)"

text \<open>
  \<^verbatim>\<open>toUpperCase()\<close> on ASCII: the letters \<^verbatim>\<open>a\<close> to \<^verbatim>\<open>z\<close> (codes 97 to 122) move to
  \<^verbatim>\<open>A\<close> to \<^verbatim>\<open>Z\<close>, every other character stays.
\<close>

definition upper_char :: "char \<Rightarrow> char" where
  "upper_char c =
     (let n = (of_char c :: nat)
      in if 97 \<le> n \<and> n \<le> 122 then char_of (n - 32) else c)"

definition toUpperCase :: "string \<Rightarrow> string" where
  "toUpperCase str = map upper_char str"

definition is_lower :: "char \<Rightarrow> bool" where
  "is_lower c = (97 \<le> (of_char c :: nat) \<and> (of_char c :: nat) \<le> 122)"

section \<open>The streaming transport of \<^verbatim>\<open>finage-test/src/transport/stock-ws.ts\<close>\<close>

text \<open>
  \<^verbatim>\<open>interface Message { s: string; a: string; p: string; b: string; t: number }\<close>.
  The fields are \<open>msg_s\<close>, \<open>msg_a\<close>, \<open>msg_p\<close>, \<open>msg_b\<close> and \<open>msg_t\<close> here: the symbol, the
  best ask, the price, the best bid and the provider's timestamp. A message comes from
  the provider, so each string field may be absent.
\<close>

record Message =
  msg_s :: field
  msg_a :: field
  msg_p :: field
  msg_b :: field
  msg_t :: jsnum

text \<open>
  What the handler returns for the cache: \<^verbatim>\<open>{ params: { base }, response: { data: { result },
  result, timestamps: { providerIndicatedTimeUnixMs } } }\<close>. The \<^verbatim>\<open>result\<close> inside
  \<^verbatim>\<open>data\<close> is the field \<open>data_result\<close>.
\<close>

record Params =
  base :: field

record Timestamps =
  providerIndicatedTimeUnixMs :: jsnum

record ResponseData =
  data_result :: jsnum

record Response =
  data :: ResponseData
  result :: jsnum
  timestamps :: Timestamps

record ProviderResult =
  params :: Params
  response :: Response

text \<open>\<^verbatim>\<open>handlers.message(message)\<close>.\<close>

definition message :: "Message \<Rightarrow> ProviderResult list" where
  "message m =
     (if \<not> truthy (msg_p m) \<and> \<not> truthy (msg_a m) \<and> \<not> truthy (msg_b m) then []
      else
        let r = (if truthy (msg_p m) then Number (msg_p m)
                 else js_div (js_add (Number (msg_a m)) (Number (msg_b m))) (Fin 2))
        in [\<lparr>params = \<lparr>base = msg_s m\<rparr>,
             response = \<lparr>data = \<lparr>data_result = r\<rparr>, result = r,
                         timestamps = \<lparr>providerIndicatedTimeUnixMs = msg_t m\<rparr>\<rparr>\<rparr>])"

text \<open>\<^verbatim>\<open>builders.subscribeMessage(params)\<close> and \<^verbatim>\<open>builders.unsubscribeMessage(params)\<close>.\<close>

record ControlMessage =
  action :: string
  symbols :: string

definition subscribeMessage :: "Params \<Rightarrow> ControlMessage" where
  "subscribeMessage ps =
     \<lparr>action = ''subscribe'', symbols = toUpperCase (template_literal (base ps))\<rparr>"

definition unsubscribeMessage :: "Params \<Rightarrow> ControlMessage" where
  "unsubscribeMessage ps =
     \<lparr>action = ''unsubscribe'', symbols = toUpperCase (template_literal (base ps))\<rparr>"

text \<open>The messages of the specification's examples.\<close>

definition price_message :: Message where
  "price_message =
     \<lparr>msg_s = Some ''BTC'', msg_a = None, msg_p = Some ''100'', msg_b = None, msg_t = Fin 1000\<rparr>"

definition quote_message :: Message where
  "quote_message =
     \<lparr>msg_s = Some ''BTC'', msg_a = Some ''101'', msg_p = None, msg_b = Some ''99'',
      msg_t = Fin 1000\<rparr>"

definition status_message :: Message where
  "status_message =
     \<lparr>msg_s = Some ''BTC'', msg_a = None, msg_p = None, msg_b = None, msg_t = Fin 1000\<rparr>"

definition mixed_case_params :: Params where
  "mixed_case_params = \<lparr>base = Some ''btc/Usd-9z''\<rparr>"

definition empty_bid_message :: Message where
  "empty_bid_message =
     \<lparr>msg_s = Some ''BTC'', msg_a = Some ''101'', msg_p = Some [], msg_b = Some [],
      msg_t = Fin 1000\<rparr>"

definition ask_only_message :: Message where
  "ask_only_message =
     \<lparr>msg_s = Some ''BTC'', msg_a = Some ''101'', msg_p = None, msg_b = None, msg_t = Fin 1000\<rparr>"

definition empty_price_message :: Message where
  "empty_price_message =
     \<lparr>msg_s = Some ''BTC'', msg_a = Some ''101'', msg_p = Some [], msg_b = Some ''99'',
      msg_t = Fin 1000\<rparr>"

definition provider_result :: "field \<Rightarrow> jsnum \<Rightarrow> jsnum \<Rightarrow> ProviderResult" where
  "provider_result sy r ts =
     \<lparr>params = \<lparr>base = sy\<rparr>,
      response = \<lparr>data = \<lparr>data_result = r\<rparr>, result = r,
                  timestamps = \<lparr>providerIndicatedTimeUnixMs = ts\<rparr>\<rparr>\<rparr>"

section \<open>The rate limiter\<close>

text \<open>
  Modelled from the spec: the RateLimiter belongs to the adapter framework, whose code
  is not among the sources (the test \<^verbatim>\<open>composite-http.test.ts\<close> only reads its
  \<^verbatim>\<open>period\<close>, \<^verbatim>\<open>lastRequestAt\<close> and \<^verbatim>\<open>msUntilNextExecution()\<close>). The definitions
  follow section 4.1 of the specification: a ceiling per window among perSecond,
  perMinute, perHour, perDay and perMonth, \<open>periodMs = windowMs / ceiling\<close>, the
  effective period the greatest \<open>periodMs\<close> of the configured tiers, and
  \<open>msUntilNextExecution = max(0, effectivePeriod - (now - lastRequestAt))\<close>.
  Times are in milliseconds. A tier is configured when it has a ceiling and the
  ceiling is not 0. The specification does not give the length of the month window:
  it is the parameter \<open>monthMs\<close>.
\<close>

type_synonym ms = rat

text \<open>Modelled from the spec: the configuration, one optional ceiling per window (the
  framework's configuration type is not among the sources).\<close>

record RateLimitTiers =
  perSecond :: "nat option"
  perMinute :: "nat option"
  perHour :: "nat option"
  perDay :: "nat option"
  perMonth :: "nat option"

text \<open>Modelled from the spec: the window of each tier with its ceiling (the framework's
  table of windows is not among the sources).\<close>

definition tier_windows :: "ms \<Rightarrow> RateLimitTiers \<Rightarrow> (ms \<times> nat option) list" where
  "tier_windows monthMs cfg =
     [(1000, perSecond cfg), (60000, perMinute cfg), (3600000, perHour cfg),
      (86400000, perDay cfg), (monthMs, perMonth cfg)]"

text \<open>Modelled from the spec: \<open>periodMs = windowMs / ceiling\<close> (the framework's
  conversion is not among the sources).\<close>

definition periodMs :: "ms \<Rightarrow> nat \<Rightarrow> ms" where
  "periodMs windowMs limit = windowMs / of_nat limit"

text \<open>Modelled from the spec: the effective period, computed tier by tier; tiers with
  no ceiling are ignored (the framework's computation is not among the sources).\<close>

fun effectivePeriod :: "(ms \<times> nat option) list \<Rightarrow> ms" where
  "effectivePeriod [] = 0"
| "effectivePeriod ((w, c) # ts) =
     (case c of
        None \<Rightarrow> effectivePeriod ts
      | Some k \<Rightarrow>
          if k = 0 then effectivePeriod ts else max (periodMs w k) (effectivePeriod ts))"

text \<open>Modelled from the spec: the periods of the configured, non-empty tiers, over which
  the specification takes the maximum.\<close>

fun configured_periods :: "(ms \<times> nat option) list \<Rightarrow> ms list" where
  "configured_periods [] = []"
| "configured_periods ((w, c) # ts) =
     (case c of
        None \<Rightarrow> configured_periods ts
      | Some k \<Rightarrow> if k = 0 then configured_periods ts else periodMs w k # configured_periods ts)"

text \<open>Modelled from the spec: the state of the limiter, the two fields the test reads
  (the framework's class is not among the sources).\<close>

record RateLimiter =
  period :: ms
  lastRequestAt :: ms

text \<open>Modelled from the spec: the limiter of a configuration; the specification does not
  give the first \<open>lastRequestAt\<close>, which is the parameter \<open>t0\<close>.\<close>

definition initialize :: "ms \<Rightarrow> RateLimitTiers \<Rightarrow> ms \<Rightarrow> RateLimiter" where
  "initialize monthMs cfg t0 =
     \<lparr>period = effectivePeriod (tier_windows monthMs cfg), lastRequestAt = t0\<rparr>"

text \<open>Modelled from the spec: \<open>msUntilNextExecution()\<close> at the time \<open>now\<close> (the
  framework's method is not among the sources).\<close>

definition msUntilNextExecution :: "RateLimiter \<Rightarrow> ms \<Rightarrow> ms" where
  "msUntilNextExecution rl now = max 0 (period rl - (now - lastRequestAt rl))"

text \<open>Modelled from the spec: \<open>onExecute()\<close> sets \<open>lastRequestAt = now\<close>.\<close>

definition onExecute :: "RateLimiter \<Rightarrow> ms \<Rightarrow> RateLimiter" where
  "onExecute rl now = rl\<lparr>lastRequestAt := now\<rparr>"

definition is_integer :: "rat \<Rightarrow> bool" where
  "is_integer q = (of_int \<lfloor>q\<rfloor> = q)"

definition no_tiers :: RateLimitTiers where
  "no_tiers =
     \<lparr>perSecond = None, perMinute = None, perHour = None, perDay = None, perMonth = None\<rparr>"

section \<open>The subscription set\<close>

text \<open>
  Modelled from the spec: the SubscriptionSet belongs to the adapter framework, whose
  code is not among the sources (the test only calls \<^verbatim>\<open>subscriptionSet.getAll()\<close>). The
  definitions follow sections 3 and 4.2 of the specification: an entry is
  \<open>{fingerprint, lastRequestedAt, expiresAt}\<close>; \<open>registerRequest\<close> upserts and extends
  the time to live; an entry is removed when \<open>now > expiresAt\<close>; \<open>getAll\<close> is the
  ordered sequence of live fingerprints. The set is a list of entries, so that a
  duplicate entry is a state the model can express.
\<close>

text \<open>Modelled from the spec: SubscriptionEntry (the framework's type is not among the
  sources).\<close>

record 'f SubscriptionEntry =
  fingerprint :: 'f
  lastRequestedAt :: ms
  expiresAt :: ms

type_synonym 'f SubscriptionSet = "'f SubscriptionEntry list"

text \<open>Modelled from the spec: \<open>registerRequest(fingerprint)\<close> at the time \<open>now\<close> with
  the time to live \<open>ttl\<close>: the entry of the fingerprint is refreshed where it is,
  and a new entry is added at the end when there is none.\<close>

fun registerRequest :: "ms \<Rightarrow> ms \<Rightarrow> 'f \<Rightarrow> 'f SubscriptionSet \<Rightarrow> 'f SubscriptionSet" where
  "registerRequest ttl now F [] =
     [\<lparr>fingerprint = F, lastRequestedAt = now, expiresAt = now + ttl\<rparr>]"
| "registerRequest ttl now F (e # es) =
     (if fingerprint e = F then e\<lparr>lastRequestedAt := now, expiresAt := now + ttl\<rparr> # es
      else e # registerRequest ttl now F es)"

text \<open>Modelled from the spec: a sequence of requests, each with its time, registered in
  order.\<close>

fun registerAll :: "ms \<Rightarrow> (ms \<times> 'f) list \<Rightarrow> 'f SubscriptionSet \<Rightarrow> 'f SubscriptionSet" where
  "registerAll ttl [] S = S"
| "registerAll ttl ((now, F) # reqs) S = registerAll ttl reqs (registerRequest ttl now F S)"

text \<open>Modelled from the spec: the sweep removes the entries with \<open>now > expiresAt\<close>.\<close>

definition sweep :: "ms \<Rightarrow> 'f SubscriptionSet \<Rightarrow> 'f SubscriptionSet" where
  "sweep now S = filter (\<lambda>e. \<not> expiresAt e < now) S"

text \<open>Modelled from the spec: \<open>getAll()\<close>, the fingerprints in order.\<close>

definition getAll :: "'f SubscriptionSet \<Rightarrow> 'f list" where
  "getAll S = map fingerprint S"

definition entries_for :: "'f \<Rightarrow> 'f SubscriptionSet \<Rightarrow> 'f SubscriptionSet" where
  "entries_for F S = filter (\<lambda>e. fingerprint e = F) S"

section \<open>The request coordinator\<close>

text \<open>
  Modelled from the spec: the RequestCoordinator and the ResponseCache belong to the
  adapter framework, whose code is not among the sources (the test only sets
  \<^verbatim>\<open>CACHE_POLLING_MAX_RETRIES\<close> to 0 and reads the response). The definitions follow
  sections 3, 4.3 and 4.7 of the specification. \<open>handle\<close> registers the fingerprint.
  With \<open>CACHE_POLLING_MAX_RETRIES = 0\<close> it does not wait and serves whatever is cached,
  an entry of any age or nothing. Otherwise it makes up to \<open>CACHE_POLLING_MAX_RETRIES\<close>
  attempts, separated by backoff waits: an attempt that finds an entry written after
  the registration serves it, and when the last attempt finds none, \<open>handle\<close> reports
  a timeout, with the stale or absent entry for the caller to decide on.

  The background refresh writes the cache while \<open>handle\<close> waits, so the cache is given
  as the sequence of its states: \<open>cacheAt k\<close> is the cache after \<open>k\<close> waits. The result
  counts the waits.
\<close>

text \<open>Modelled from the spec: CacheEntry, the value with its provenance timestamps and
  the time of the write; the cache maps a fingerprint to its entry (the framework's
  types are not among the sources).\<close>

record 'v CacheEntry =
  entry_value :: 'v
  providerRequestedAtMs :: ms
  providerReceivedAtMs :: ms
  providerIndicatedTimeMs :: "ms option"
  writtenAt :: ms

type_synonym ('f, 'v) ResponseCache = "'f \<Rightarrow> 'v CacheEntry option"

text \<open>Modelled from the spec: what \<open>handle\<close> returns: what it serves from the cache (an
  entry, or nothing when nothing is cached), or the timeout with the stale or absent
  entry; with it the number of backoff waits and the subscription set after the
  registration.\<close>

datatype 'v outcome = Served "'v CacheEntry option" | TimedOut "'v CacheEntry option"

record ('f, 'v) HandleResult =
  outcome_of :: "'v outcome"
  waits :: nat
  subscriptions :: "'f SubscriptionSet"

text \<open>Modelled from the spec: an entry is fresh when it was written after the
  registration; nothing is not fresh.\<close>

definition fresh :: "ms \<Rightarrow> 'v CacheEntry option \<Rightarrow> bool" where
  "fresh registeredAt c = (case c of None \<Rightarrow> False | Some e \<Rightarrow> registeredAt < writtenAt e)"

text \<open>Modelled from the spec: the polling loop of \<open>handle\<close> for a positive number of
  retries, with the attempts left and the number of waits so far. A wait separates two
  attempts; after the last attempt the loop ends with the timeout.\<close>

fun pollCache ::
  "nat \<Rightarrow> nat \<Rightarrow> (nat \<Rightarrow> ('f, 'v) ResponseCache) \<Rightarrow> 'f \<Rightarrow> ms \<Rightarrow> 'v outcome \<times> nat" where
  "pollCache 0 k cacheAt F registeredAt = (TimedOut (cacheAt k F), k)"
| "pollCache (Suc n) k cacheAt F registeredAt =
     (if fresh registeredAt (cacheAt k F) then (Served (cacheAt k F), k)
      else if n = 0 then (TimedOut (cacheAt k F), k)
      else pollCache n (Suc k) cacheAt F registeredAt)"

text \<open>Modelled from the spec: \<open>handle(fingerprint)\<close> at the time \<open>now\<close>. With no retries
  it serves whatever is cached at once; otherwise it polls.\<close>

definition handle ::
  "nat \<Rightarrow> ms \<Rightarrow> ms \<Rightarrow> (nat \<Rightarrow> ('f, 'v) ResponseCache) \<Rightarrow> 'f SubscriptionSet \<Rightarrow> 'f
     \<Rightarrow> ('f, 'v) HandleResult" where
  "handle maxRetries ttl now cacheAt S F =
     (let (r, w) = (if maxRetries = 0 then (Served (cacheAt 0 F), 0)
                    else pollCache maxRetries 0 cacheAt F now)
      in \<lparr>outcome_of = r, waits = w, subscriptions = registerRequest ttl now F S\<rparr>)"

section \<open>The batch transport under the rate limiter\<close>

text \<open>
  Modelled from the spec: the batch transport (\<^verbatim>\<open>CompositeHttpTransport\<close>) and the
  background executor are not among the sources (the test only counts the calls of
  \<^verbatim>\<open>backgroundExecute\<close>). The definitions follow sections 4.4 and 4.5 of the
  specification, as far as they decide when a provider call is issued: a tick with no
  active fingerprint is an idle no-op; otherwise the transport computes
  \<open>delay = msUntilNextExecution()\<close> and, when it is positive, waits that long or skips
  the cycle; it calls \<open>onExecute()\<close> once for the outbound call it issues. The
  specification leaves the choice between waiting and skipping open, so the policy is
  a parameter. What the call returns and what is written to the cache (steps 2, 3 and
  5) has no part in the time of a call and is not represented.
\<close>

datatype policy = Wait | Skip

text \<open>Modelled from the spec: one cycle of \<open>backgroundExecute\<close> at the time \<open>now\<close> for the
  active fingerprints: the limiter after the cycle, and the time of the outbound call
  when one is issued.\<close>

definition backgroundExecute ::
  "policy \<Rightarrow> RateLimiter \<Rightarrow> ms \<Rightarrow> 'f list \<Rightarrow> RateLimiter \<times> ms option" where
  "backgroundExecute pol rl now active =
     (if active = [] then (rl, None)
      else
        let delay = msUntilNextExecution rl now
        in if 0 < delay then
             (case pol of
                Skip \<Rightarrow> (rl, None)
              | Wait \<Rightarrow> (onExecute rl (now + delay), Some (now + delay)))
           else (onExecute rl now, Some now))"

text \<open>Modelled from the spec: the background executor runs the cycles of the ticks in
  order, each tick with its time and the fingerprints active then; the result is the
  sequence of the times of the outbound calls, which are the times of \<open>onExecute()\<close>.\<close>

fun run_ticks :: "policy \<Rightarrow> RateLimiter \<Rightarrow> (ms \<times> 'f list) list \<Rightarrow> ms list" where
  "run_ticks pol rl [] = []"
| "run_ticks pol rl ((now, active) # ticks) =
     (case backgroundExecute pol rl now active of
        (rl', None) \<Rightarrow> run_ticks pol rl' ticks
      | (rl', Some c) \<Rightarrow> c # run_ticks pol rl' ticks)"



text \<open>Continuous demand: \<open>n\<close> ticks from \<open>T\<close> on, one every \<open>i\<close> milliseconds, each with
  the same active fingerprints; and the times \<open>T\<close>, \<open>T + p\<close>, and so on.\<close>

fun ticks_from :: "ms \<Rightarrow> ms \<Rightarrow> 'f list \<Rightarrow> nat \<Rightarrow> (ms \<times> 'f list) list" where
  "ticks_from T i active 0 = []"
| "ticks_from T i active (Suc n) = (T, active) # ticks_from (T + i) i active n"

fun times_from :: "ms \<Rightarrow> ms \<Rightarrow> nat \<Rightarrow> ms list" where
  "times_from T p 0 = []"
| "times_from T p (Suc n) = T # times_from (T + p) p n"

text \<open>Inputs of the examples: three requests for two fingerprints, and an entry of
  the cache.\<close>

definition btc_eth_requests :: "(ms \<times> string) list" where
  "btc_eth_requests = [(0, ''BTC''), (10, ''ETH''), (20, ''BTC'')]"

definition stale_entry :: "jsnum CacheEntry" where
  "stale_entry =
     \<lparr>entry_value = Fin 1, providerRequestedAtMs = 400, providerReceivedAtMs = 450,
      providerIndicatedTimeMs = None, writtenAt = 500\<rparr>"

definition btc_cache :: "(string, jsnum) ResponseCache" where
  "btc_cache = Map.empty(''BTC'' \<mapsto> stale_entry)"

definition one_per_second :: RateLimitTiers where
  "one_per_second = no_tiers\<lparr>perSecond := Some 1\<rparr>"

definition three_per_second :: RateLimitTiers where
  "three_per_second = no_tiers\<lparr>perSecond := Some 3\<rparr>"

section \<open>JavaScript values: basic facts\<close>

lemma truthy_Some: "truthy (Some str) = (str \<noteq> [])"
  by (simp add: truthy_def)

lemma truthy_None: "truthy None = False"
  by (simp add: truthy_def)

lemma Number_empty_string: "Number (Some []) = Fin 0"
  by (simp add: Number_def StringToNumber_def trim_def)

lemma Number_undefined: "Number None = NaN"
  by (simp add: Number_def)

lemma Number_100: "Number (Some ''100'') = Fin 100"
  by code_simp

lemma midpoint_101_99:
  "js_div (js_add (Number (Some ''101'')) (Number (Some ''99''))) (Fin 2) = Fin 100"
  by code_simp

text \<open>Where the sum and its half are binary64 values, the midpoint is exact.\<close>

lemma js_midpoint_exact:
  assumes "representable (x + y)" and "representable ((x + y) / 2)"
  shows "js_div (js_add (Fin x) (Fin y)) (Fin 2) = Fin ((x + y) / 2)"
proof -
  from assms(1) have s: "js_add (Fin x) (Fin y) = Fin (x + y)"
    by (simp add: representable_def)
  show ?thesis
  proof (cases "x + y = 0")
    case True
    with s show ?thesis by (simp add: js_div_def)
  next
    case False
    with s assms(2) show ?thesis by (simp add: js_div_def representable_def)
  qed
qed

lemma representable_200: "representable 200"
  by code_simp

lemma representable_100: "representable 100"
  by code_simp

lemma length_toUpperCase: "length (toUpperCase str) = length str"
  by (simp add: toUpperCase_def)

lemma upper_char_not_lower: "\<not> is_lower (upper_char c)"
  by (auto simp add: upper_char_def is_lower_def Let_def)

lemma upper_char_fixed: "\<not> is_lower c \<Longrightarrow> upper_char c = c"
  by (auto simp add: upper_char_def is_lower_def Let_def)

lemma toUpperCase_no_lower: "\<forall>c \<in> set (toUpperCase str). \<not> is_lower c"
  by (simp add: toUpperCase_def upper_char_not_lower)

lemma toUpperCase_idem: "toUpperCase (toUpperCase str) = toUpperCase str"
  by (simp add: toUpperCase_def upper_char_fixed upper_char_not_lower)

lemma toUpperCase_btc: "toUpperCase ''btc/Usd-9z'' = ''BTC/USD-9Z''"
  by code_simp

section \<open>The message handler\<close>

text \<open>The three branches of \<^verbatim>\<open>handlers.message\<close>, one lemma each.\<close>

lemma message_no_fields:
  "\<not> truthy (msg_p m) \<Longrightarrow> \<not> truthy (msg_a m) \<Longrightarrow> \<not> truthy (msg_b m) \<Longrightarrow> message m = []"
  by (simp add: message_def)

lemma message_with_price:
  "truthy (msg_p m) \<Longrightarrow>
   message m = [provider_result (msg_s m) (Number (msg_p m)) (msg_t m)]"
  by (simp add: message_def provider_result_def Let_def)

lemma message_without_price:
  "\<not> truthy (msg_p m) \<Longrightarrow> truthy (msg_a m) \<or> truthy (msg_b m) \<Longrightarrow>
   message m =
     [provider_result (msg_s m)
        (js_div (js_add (Number (msg_a m)) (Number (msg_b m))) (Fin 2)) (msg_t m)]"
  by (auto simp add: message_def provider_result_def Let_def)

text \<open>
  Claim C3, as the handler has it. The message handler returns no result entry exactly
  for the messages that have none of the price, bid and ask fields (each absent or
  empty): for these there is nothing to write to the cache, and the handler returns
  normally (it has no failing branch), so the connection stays up. In particular a
  message with neither a price nor bid and ask fields yields no cache write. Every
  other message yields one entry. The handler never returns more than one entry.
\<close>

theorem message_drops_exactly_empty:
  "(message m = [] \<longleftrightarrow> \<not> truthy (msg_p m) \<and> \<not> truthy (msg_a m) \<and> \<not> truthy (msg_b m)) \<and>
   length (message m) \<le> 1"
  by (simp add: message_def Let_def)

theorem message_drops_exactly_empty_witness:
  "\<not> truthy (msg_p status_message) \<and> \<not> truthy (msg_a status_message) \<and>
   \<not> truthy (msg_b status_message) \<and> message status_message = [] \<and>
   truthy (msg_p price_message) \<and> message price_message \<noteq> []"
proof -
  have p: "\<not> truthy (msg_p status_message)"
    and a: "\<not> truthy (msg_a status_message)"
    and b: "\<not> truthy (msg_b status_message)"
    and q: "truthy (msg_p price_message)"
    by (simp_all add: status_message_def price_message_def truthy_def)
  from message_drops_exactly_empty [of status_message] p a b
  have 1: "message status_message = []" by blast
  from message_drops_exactly_empty [of price_message] q
  have 2: "message price_message \<noteq> []" by blast
  from p a b q 1 2 show ?thesis by blast
qed

text \<open>
  The claim as it is written covers every message that misses required fields. A
  message with an ask and neither a price nor a bid is such a message, and the handler
  does not drop it: it returns an entry, with the value
  \<^verbatim>\<open>(Number("101") + Number(undefined)) / 2\<close>, which is \<open>NaN\<close>.
\<close>

theorem message_keeps_ask_only:
  "\<not> truthy (msg_p ask_only_message) \<and> \<not> truthy (msg_b ask_only_message) \<and>
   message ask_only_message = [provider_result (Some ''BTC'') NaN (Fin 1000)]"
  by code_simp

text \<open>The same with the empty string for the missing bid, as the declared type of the
  message has it: \<^verbatim>\<open>Number("")\<close> is 0, and the entry has the value 50.5.\<close>

lemma message_empty_bid:
  "message empty_bid_message = [provider_result (Some ''BTC'') (Fin (101 / 2)) (Fin 1000)]"
  by code_simp

text \<open>
  Claim C4. A provider message with a direct price field makes the message handler
  return exactly one entry: it is keyed by the symbol of the message, its result (also
  under \<^verbatim>\<open>data\<close>) is the numeric value \<^verbatim>\<open>Number(p)\<close> of the price field, and its
  \<^verbatim>\<open>providerIndicatedTimeUnixMs\<close> is the timestamp field of the message. For
  \<^verbatim>\<open>{s:"BTC", p:"100", t:1000}\<close> the value is 100 and the time 1000.
\<close>

theorem message_direct_price:
  assumes "truthy (msg_p m)"
  shows "message m = [provider_result (msg_s m) (Number (msg_p m)) (msg_t m)]"
  using assms by (rule message_with_price)

theorem message_direct_price_witness:
  "truthy (msg_p price_message) \<and>
   message price_message = [provider_result (Some ''BTC'') (Fin 100) (Fin 1000)]"
proof -
  have h: "truthy (msg_p price_message)"
    by (simp add: price_message_def truthy_def)
  have n: "Number (msg_p price_message) = Fin 100"
    by (simp add: price_message_def Number_100)
  from message_direct_price [OF h] h n show ?thesis
    by (simp add: price_message_def)
qed

text \<open>
  Claim C5. A provider message without a direct price field and with the best bid and
  best ask fields makes the message handler return one entry whose result is the
  midpoint \<^verbatim>\<open>(Number(a) + Number(b)) / 2\<close> of ask and bid, in JavaScript's arithmetic.
  Where the sum of the two numbers and its half are binary64 values, the result is
  their arithmetic mean exactly. For \<^verbatim>\<open>{s:"BTC", a:"101", b:"99", t:1000}\<close> the value
  is 100.
\<close>

theorem message_bid_ask_midpoint:
  assumes "\<not> truthy (msg_p m)" and "truthy (msg_a m)" and "truthy (msg_b m)"
  shows "message m =
      [provider_result (msg_s m)
         (js_div (js_add (Number (msg_a m)) (Number (msg_b m))) (Fin 2)) (msg_t m)] \<and>
    (Number (msg_a m) = Fin x \<and> Number (msg_b m) = Fin y \<and>
     representable (x + y) \<and> representable ((x + y) / 2) \<longrightarrow>
       message m = [provider_result (msg_s m) (Fin ((x + y) / 2)) (msg_t m)])"
proof -
  from assms have g: "message m =
      [provider_result (msg_s m)
         (js_div (js_add (Number (msg_a m)) (Number (msg_b m))) (Fin 2)) (msg_t m)]"
    by (simp add: message_without_price)
  have "message m = [provider_result (msg_s m) (Fin ((x + y) / 2)) (msg_t m)]"
    if "Number (msg_a m) = Fin x" and "Number (msg_b m) = Fin y"
      and "representable (x + y)" and "representable ((x + y) / 2)"
    using g that by (simp only: js_midpoint_exact)
  with g show ?thesis by blast
qed

theorem message_bid_ask_midpoint_witness:
  "\<not> truthy (msg_p quote_message) \<and> truthy (msg_a quote_message) \<and>
   truthy (msg_b quote_message) \<and>
   Number (msg_a quote_message) = Fin 101 \<and> Number (msg_b quote_message) = Fin 99 \<and>
   representable (101 + 99) \<and> representable ((101 + 99) / 2) \<and>
   message quote_message = [provider_result (Some ''BTC'') (Fin 100) (Fin 1000)]"
proof -
  have p: "\<not> truthy (msg_p quote_message)"
    and a: "truthy (msg_a quote_message)"
    and b: "truthy (msg_b quote_message)"
    by (simp_all add: quote_message_def truthy_def)
  have x: "Number (msg_a quote_message) = Fin 101"
    and y: "Number (msg_b quote_message) = Fin 99"
    by code_simp+
  have r: "representable (101 + 99)" and h: "representable ((101 + 99) / 2)"
    by (simp_all add: representable_200 representable_100)
  from message_bid_ask_midpoint [OF p a b, of 101 99] x y r h
  have "message quote_message =
      [provider_result (msg_s quote_message) (Fin ((101 + 99) / 2)) (msg_t quote_message)]"
    by blast
  then have "message quote_message = [provider_result (Some ''BTC'') (Fin 100) (Fin 1000)]"
    by (simp add: quote_message_def)
  with p a b x y r h show ?thesis by blast
qed

text \<open>
  Claim C10. The price field counts as present by JavaScript truthiness, not by
  existence: a message whose \<^verbatim>\<open>p\<close> is the empty string and whose \<^verbatim>\<open>a\<close> and \<^verbatim>\<open>b\<close> are
  non-empty strings gets the midpoint of ask and bid as its result, and not the value
  \<^verbatim>\<open>Number('') = 0\<close> of its price field.
\<close>

theorem empty_price_uses_midpoint:
  assumes "msg_p m = Some []"
    and "msg_a m = Some x" and "x \<noteq> []"
    and "msg_b m = Some y" and "y \<noteq> []"
  shows "message m =
    [provider_result (msg_s m)
       (js_div (js_add (StringToNumber x) (StringToNumber y)) (Fin 2)) (msg_t m)] \<and>
    Number (msg_p m) = Fin 0"
proof -
  from assms have "\<not> truthy (msg_p m)" and "truthy (msg_a m) \<or> truthy (msg_b m)"
    by (simp_all add: truthy_def)
  then have "message m =
    [provider_result (msg_s m)
       (js_div (js_add (Number (msg_a m)) (Number (msg_b m))) (Fin 2)) (msg_t m)]"
    by (rule message_without_price)
  with assms show ?thesis
    by (simp add: Number_def Number_empty_string [unfolded Number_def, simplified])
qed

theorem empty_price_uses_midpoint_witness:
  "msg_p empty_price_message = Some [] \<and>
   msg_a empty_price_message = Some ''101'' \<and> ''101'' \<noteq> [] \<and>
   msg_b empty_price_message = Some ''99'' \<and> ''99'' \<noteq> [] \<and>
   message empty_price_message = [provider_result (Some ''BTC'') (Fin 100) (Fin 1000)] \<and>
   Number (msg_p empty_price_message) = Fin 0 \<and> Fin 100 \<noteq> Fin 0"
proof -
  have p: "msg_p empty_price_message = Some []"
    and a: "msg_a empty_price_message = Some ''101''"
    and b: "msg_b empty_price_message = Some ''99''"
    by (simp_all add: empty_price_message_def)
  have x: "''101'' \<noteq> []" and y: "''99'' \<noteq> []"
    by simp_all
  have n: "js_div (js_add (StringToNumber ''101'') (StringToNumber ''99'')) (Fin 2) = Fin 100"
    using midpoint_101_99 by (simp add: Number_def)
  from empty_price_uses_midpoint [OF p a x b y] p a b n show ?thesis
    by (simp add: empty_price_message_def)
qed

section \<open>The control messages\<close>

text \<open>
  Claim C9. For every \<^verbatim>\<open>params\<close>, \<^verbatim>\<open>subscribeMessage(params)\<close> and
  \<^verbatim>\<open>unsubscribeMessage(params)\<close> have as \<^verbatim>\<open>symbols\<close> the upper-cased string form of
  \<^verbatim>\<open>params.base\<close>: for a string of ASCII characters, the string with each letter
  \<^verbatim>\<open>a\<close> to \<^verbatim>\<open>z\<close> (codes 97 to 122) replaced by its capital (the code less 32) and
  every other character kept; for an absent \<^verbatim>\<open>base\<close>, \<^verbatim>\<open>UNDEFINED\<close>. The two messages
  differ in the \<^verbatim>\<open>action\<close> field only, which is \<^verbatim>\<open>'subscribe'\<close> in the one and
  \<^verbatim>\<open>'unsubscribe'\<close> in the other.
\<close>

theorem subscribe_unsubscribe_messages:
  "(base ps = Some str \<and> (\<forall>c \<in> set str. (of_char c :: nat) < 128) \<longrightarrow>
      symbols (subscribeMessage ps) =
        map (\<lambda>c. if 97 \<le> (of_char c :: nat) \<and> (of_char c :: nat) \<le> 122
                  then char_of ((of_char c :: nat) - 32) else c) str) \<and>
   (base ps = None \<longrightarrow> symbols (subscribeMessage ps) = ''UNDEFINED'') \<and>
   symbols (unsubscribeMessage ps) = symbols (subscribeMessage ps) \<and>
   action (subscribeMessage ps) = ''subscribe'' \<and>
   action (unsubscribeMessage ps) = ''unsubscribe'' \<and>
   unsubscribeMessage ps = (subscribeMessage ps)\<lparr>action := ''unsubscribe''\<rparr>"
proof -
  have u: "toUpperCase ''undefined'' = ''UNDEFINED''" by code_simp
  show ?thesis
    by (auto simp add: subscribeMessage_def unsubscribeMessage_def template_literal_def u)
      (simp add: toUpperCase_def upper_char_def Let_def)
qed

theorem subscribe_unsubscribe_messages_witness:
  "base mixed_case_params = Some ''btc/Usd-9z'' \<and>
   list_all (\<lambda>c. (of_char c :: nat) < 128) ''btc/Usd-9z'' \<and>
   subscribeMessage mixed_case_params = \<lparr>action = ''subscribe'', symbols = ''BTC/USD-9Z''\<rparr> \<and>
   unsubscribeMessage mixed_case_params = \<lparr>action = ''unsubscribe'', symbols = ''BTC/USD-9Z''\<rparr>"
proof -
  have b: "base mixed_case_params = Some ''btc/Usd-9z''"
    by (simp add: mixed_case_params_def)
  have a: "list_all (\<lambda>c. (of_char c :: nat) < 128) ''btc/Usd-9z''" by simp
  then have a': "\<forall>c \<in> set ''btc/Usd-9z''. (of_char c :: nat) < 128"
    by (simp only: list_all_iff)
  have m: "map (\<lambda>c. if 97 \<le> (of_char c :: nat) \<and> (of_char c :: nat) \<le> 122
                  then char_of ((of_char c :: nat) - 32) else c) ''btc/Usd-9z'' = ''BTC/USD-9Z''"
    by code_simp
  note t = subscribe_unsubscribe_messages [of mixed_case_params "''btc/Usd-9z''"]
  from t b a' m have s: "symbols (subscribeMessage mixed_case_params) = ''BTC/USD-9Z''"
    by simp
  from t have u: "unsubscribeMessage mixed_case_params =
      (subscribeMessage mixed_case_params)\<lparr>action := ''unsubscribe''\<rparr>"
    and c: "action (subscribeMessage mixed_case_params) = ''subscribe''"
    by blast+
  from s c have 1: "subscribeMessage mixed_case_params =
      \<lparr>action = ''subscribe'', symbols = ''BTC/USD-9Z''\<rparr>"
    by (cases "subscribeMessage mixed_case_params") simp
  with u have 2: "unsubscribeMessage mixed_case_params =
      \<lparr>action = ''unsubscribe'', symbols = ''BTC/USD-9Z''\<rparr>"
    by simp
  from b a 1 2 show ?thesis by blast
qed

section \<open>The rate limiter: the effective period and the wait\<close>

text \<open>The tier-by-tier computation gives the greatest period of the configured tiers.\<close>

lemma effectivePeriod_Max:
  "effectivePeriod ts = Max (insert 0 (set (configured_periods ts)))"
proof (induction ts)
  case Nil
  then show ?case by simp
next
  case (Cons t ts)
  obtain w c where t: "t = (w, c)" by (cases t)
  show ?case
  proof (cases c)
    case None
    with t Cons show ?thesis by simp
  next
    case (Some k)
    show ?thesis
    proof (cases "k = 0")
      case True
      with t Some Cons show ?thesis by simp
    next
      case False
      have "Max (insert (periodMs w k) (insert 0 (set (configured_periods ts)))) =
            max (periodMs w k) (Max (insert 0 (set (configured_periods ts))))"
        by (rule Max_insert) auto
      with t Some False Cons show ?thesis by (simp add: insert_commute)
    qed
  qed
qed

lemma configured_periods_nonneg:
  "\<forall>(w, c) \<in> set ts. 0 \<le> w \<Longrightarrow> \<forall>p \<in> set (configured_periods ts). 0 \<le> p"
  by (induction ts) (auto simp add: periodMs_def split: option.splits if_splits)

lemma effectivePeriod_Max_configured:
  assumes "\<forall>(w, c) \<in> set ts. 0 \<le> w"
  shows "effectivePeriod ts =
    (if configured_periods ts = [] then 0 else Max (set (configured_periods ts)))"
proof (cases "configured_periods ts = []")
  case True
  then show ?thesis by (simp add: effectivePeriod_Max)
next
  case False
  from assms have nn: "\<forall>p \<in> set (configured_periods ts). 0 \<le> p"
    by (rule configured_periods_nonneg)
  from False obtain p where p: "p \<in> set (configured_periods ts)"
    by (cases "configured_periods ts") auto
  with nn have "0 \<le> p" by blast
  also from p have "p \<le> Max (set (configured_periods ts))" by simp
  finally have "max 0 (Max (set (configured_periods ts))) = Max (set (configured_periods ts))"
    by simp
  moreover from False have "Max (insert 0 (set (configured_periods ts))) =
      max 0 (Max (set (configured_periods ts)))"
    by simp
  ultimately show ?thesis using False by (simp add: effectivePeriod_Max)
qed

lemma tier_windows_nonneg: "0 \<le> monthMs \<Longrightarrow> \<forall>(w, c) \<in> set (tier_windows monthMs cfg). 0 \<le> w"
  by (simp add: tier_windows_def)

lemma is_integer_Ints: "is_integer q \<longleftrightarrow> q \<in> \<int>"
  by (auto simp add: is_integer_def Ints_def)

lemma is_integer_wait:
  "is_integer p \<Longrightarrow> is_integer now \<Longrightarrow> is_integer l \<Longrightarrow> is_integer (max 0 (p - (now - l)))"
  by (simp add: is_integer_Ints max_def)

text \<open>Right after a call the wait is the whole period.\<close>

lemma wait_after_onExecute:
  "0 \<le> period rl \<Longrightarrow> msUntilNextExecution (onExecute rl now) now = period rl"
  by (simp add: msUntilNextExecution_def onExecute_def)

lemma period_two_tiers:
  "period (initialize 2592000000 (no_tiers\<lparr>perSecond := Some 1, perMinute := Some 30\<rparr>) 0) = 2000"
  by code_simp

text \<open>
  Claim C1, as it holds on the definitions of section 4.1. For every configuration of
  tiers, the effective period of the limiter is the maximum of
  \<open>periodMs = windowMs / ceiling\<close> over the configured, non-empty tiers (0 when there
  is none), and at every time \<open>now\<close>, \<open>msUntilNextExecution\<close> is
  \<open>max(0, effectivePeriod - (now - lastRequestAt))\<close>, which is never negative. It is
  an integer when the period, \<open>now\<close> and \<open>lastRequestAt\<close> are integers.
\<close>

theorem rate_limiter_wait:
  "0 \<le> monthMs \<Longrightarrow>
   period (initialize monthMs cfg t0) =
     (if configured_periods (tier_windows monthMs cfg) = [] then 0
      else Max (set (configured_periods (tier_windows monthMs cfg)))) \<and>
   msUntilNextExecution rl now = max 0 (period rl - (now - lastRequestAt rl)) \<and>
   0 \<le> msUntilNextExecution rl now \<and>
   (is_integer (period rl) \<and> is_integer now \<and> is_integer (lastRequestAt rl) \<longrightarrow>
      is_integer (msUntilNextExecution rl now))"
  by (simp add: initialize_def msUntilNextExecution_def is_integer_wait
      effectivePeriod_Max_configured [OF tier_windows_nonneg])

theorem rate_limiter_wait_witness:
  "(0 :: rat) \<le> 2592000000 \<and>
   period (initialize 2592000000 one_per_second 0) = 1000 \<and>
   is_integer (period (initialize 2592000000 one_per_second 0)) \<and> is_integer 400 \<and>
   is_integer (lastRequestAt (initialize 2592000000 one_per_second 0)) \<and>
   msUntilNextExecution (initialize 2592000000 one_per_second 0) 400 = 600 \<and>
   is_integer (msUntilNextExecution (initialize 2592000000 one_per_second 0) 400)"
proof -
  have m: "(0 :: rat) \<le> 2592000000" by simp
  have p: "period (initialize 2592000000 one_per_second 0) = 1000" by code_simp
  have i: "is_integer (period (initialize 2592000000 one_per_second 0))"
    and n: "is_integer 400"
    and l: "is_integer (lastRequestAt (initialize 2592000000 one_per_second 0))"
    by code_simp+
  have w: "msUntilNextExecution (initialize 2592000000 one_per_second 0) 400 = 600"
    by code_simp
  from rate_limiter_wait [OF m, of one_per_second 0 "initialize 2592000000 one_per_second 0" 400]
    i n l
  have "is_integer (msUntilNextExecution (initialize 2592000000 one_per_second 0) 400)"
    by blast
  with m p i n l w show ?thesis by blast
qed

text \<open>
  The claim as it is written says that the wait is always an integer. With a ceiling
  of 3 calls per second the period is \<open>1000 / 3\<close> milliseconds, and so is the wait
  right after a call.
\<close>

theorem rate_limiter_wait_not_integer:
  "msUntilNextExecution (initialize 2592000000 three_per_second 0) 0 = 1000 / 3 \<and>
   \<not> is_integer (msUntilNextExecution (initialize 2592000000 three_per_second 0) 0)"
  by code_simp

section \<open>The subscription set: one entry for a fingerprint\<close>

lemma getAll_registerRequest:
  "getAll (registerRequest ttl now F S) = (if F \<in> set (getAll S) then getAll S else getAll S @ [F])"
  by (induction S) (auto simp add: getAll_def)

lemma distinct_registerRequest:
  "distinct (getAll S) \<Longrightarrow> distinct (getAll (registerRequest ttl now F S))"
  by (simp add: getAll_registerRequest)

lemma distinct_registerAll:
  "distinct (getAll S) \<Longrightarrow> distinct (getAll (registerAll ttl reqs S))"
  by (induction reqs arbitrary: S) (auto simp add: distinct_registerRequest)

lemma entries_for_absent: "F \<notin> set (getAll S) \<Longrightarrow> entries_for F S = []"
  by (induction S) (auto simp add: getAll_def entries_for_def)

lemma entries_for_Cons:
  "entries_for F (e # S) = (if fingerprint e = F then e # entries_for F S else entries_for F S)"
  by (simp add: entries_for_def)

lemma entries_for_distinct: "distinct (getAll S) \<Longrightarrow> length (entries_for F S) \<le> 1"
proof (induction S)
  case Nil
  then show ?case by (simp add: entries_for_def)
next
  case (Cons e S)
  from Cons.prems have d: "distinct (getAll S)" and n: "fingerprint e \<notin> set (getAll S)"
    by (simp_all add: getAll_def)
  show ?case
  proof (cases "fingerprint e = F")
    case True
    with n have "entries_for F S = []" by (simp add: entries_for_absent)
    with True show ?thesis by (simp add: entries_for_Cons)
  next
    case False
    with Cons.IH [OF d] show ?thesis by (simp add: entries_for_Cons)
  qed
qed

lemma entries_for_other:
  "G \<noteq> F \<Longrightarrow> entries_for G (registerRequest ttl now F S) = entries_for G S"
  by (induction S) (auto simp add: entries_for_def)

lemma entries_for_registered:
  "e \<in> set (entries_for F (registerRequest ttl now F S)) \<Longrightarrow> distinct (getAll S) \<Longrightarrow>
   expiresAt e = now + ttl"
proof (induction S)
  case Nil
  then show ?case by (simp add: entries_for_def)
next
  case (Cons x S)
  from Cons.prems have d: "distinct (getAll S)" and n: "fingerprint x \<notin> set (getAll S)"
    by (simp_all add: getAll_def)
  show ?case
  proof (cases "fingerprint x = F")
    case True
    with n have "entries_for F S = []" by (simp add: entries_for_absent)
    with True Cons.prems(1) show ?thesis by (simp add: entries_for_Cons)
  next
    case False
    with Cons.prems(1) have "e \<in> set (entries_for F (registerRequest ttl now F S))"
      by (simp add: entries_for_Cons)
    then show ?thesis using d by (rule Cons.IH)
  qed
qed

lemma expiresAt_registerRequest:
  "\<forall>e \<in> set S. expiresAt e \<le> b + ttl \<Longrightarrow> now \<le> b \<Longrightarrow>
   \<forall>e \<in> set (registerRequest ttl now F S). expiresAt e \<le> b + ttl"
  by (induction S) auto

lemma expiresAt_registerAll:
  "\<forall>e \<in> set S. expiresAt e \<le> b + ttl \<Longrightarrow> \<forall>(t, H) \<in> set reqs. t \<le> b \<Longrightarrow>
   \<forall>e \<in> set (registerAll ttl reqs S). expiresAt e \<le> b + ttl"
proof (induction reqs arbitrary: S)
  case Nil
  then show ?case by simp
next
  case (Cons r reqs)
  obtain t H where r: "r = (t, H)" by (cases r)
  with Cons.prems have "t \<le> b" by simp
  with Cons.prems have "\<forall>e \<in> set (registerRequest ttl t H S). expiresAt e \<le> b + ttl"
    by (intro expiresAt_registerRequest) auto
  moreover from Cons.prems have "\<forall>(t, H) \<in> set reqs. t \<le> b" by simp
  ultimately show ?case using r Cons.IH by simp
qed

text \<open>The sweep keeps the entries that have not expired, in their order.\<close>

lemma distinct_sweep: "distinct (getAll S) \<Longrightarrow> distinct (getAll (sweep now S))"
  by (simp add: getAll_def sweep_def distinct_map_filter)

lemma sweep_keeps_live:
  "e \<in> set S \<Longrightarrow> now \<le> expiresAt e \<Longrightarrow> e \<in> set (sweep now S)"
  by (simp add: sweep_def)

text \<open>
  Claim C7. Whatever requests are registered, starting from the empty set, the set
  holds at most one entry of a fingerprint \<open>F\<close>. Registering a fingerprint that the
  set has leaves the sequence of fingerprints as it is and changes no entry of another
  fingerprint; the entry of \<open>F\<close> then expires at \<open>now + ttl\<close>, which is not before
  its former expiry when no earlier request came after \<open>now\<close>.
\<close>

theorem registerRequest_idempotent:
  "length (entries_for F (registerAll ttl reqs [])) \<le> 1 \<and>
   (F \<in> set (getAll S) \<longrightarrow> getAll (registerRequest ttl now F S) = getAll S) \<and>
   (G \<noteq> F \<longrightarrow> entries_for G (registerRequest ttl now F S) = entries_for G S) \<and>
   ((\<forall>(t, H) \<in> set reqs. t \<le> now) \<longrightarrow>
      (\<forall>e \<in> set (entries_for F (registerAll ttl reqs [])).
       \<forall>e' \<in> set (entries_for F (registerRequest ttl now F (registerAll ttl reqs []))).
         expiresAt e' = now + ttl \<and> expiresAt e \<le> expiresAt e'))"
proof -
  have d: "distinct (getAll (registerAll ttl reqs ([] :: 'a SubscriptionSet)))"
    by (rule distinct_registerAll) (simp add: getAll_def)
  have 1: "length (entries_for F (registerAll ttl reqs [])) \<le> 1"
    using d by (rule entries_for_distinct)
  have 2: "F \<in> set (getAll S) \<longrightarrow> getAll (registerRequest ttl now F S) = getAll S"
    by (simp add: getAll_registerRequest)
  have 3: "G \<noteq> F \<longrightarrow> entries_for G (registerRequest ttl now F S) = entries_for G S"
    by (simp add: entries_for_other)
  have 4: "(\<forall>(t, H) \<in> set reqs. t \<le> now) \<longrightarrow>
      (\<forall>e \<in> set (entries_for F (registerAll ttl reqs [])).
       \<forall>e' \<in> set (entries_for F (registerRequest ttl now F (registerAll ttl reqs []))).
         expiresAt e' = now + ttl \<and> expiresAt e \<le> expiresAt e')"
  proof (intro impI ballI)
    fix e e'
    assume t: "\<forall>(t, H) \<in> set reqs. t \<le> now"
    assume e: "e \<in> set (entries_for F (registerAll ttl reqs []))"
    assume e': "e' \<in> set (entries_for F (registerRequest ttl now F (registerAll ttl reqs [])))"
    from e' d have x: "expiresAt e' = now + ttl" by (rule entries_for_registered)
    have "\<forall>e \<in> set (registerAll ttl reqs ([] :: 'a SubscriptionSet)). expiresAt e \<le> now + ttl"
      using t by (intro expiresAt_registerAll) auto
    with e have "expiresAt e \<le> now + ttl" by (simp add: entries_for_def)
    with x show "expiresAt e' = now + ttl \<and> expiresAt e \<le> expiresAt e'" by simp
  qed
  from 1 2 3 4 show ?thesis by blast
qed

theorem registerRequest_idempotent_witness:
  "''BTC'' \<in> set (getAll (registerAll 30000 btc_eth_requests [])) \<and>
   ''ETH'' \<noteq> ''BTC'' \<and>
   list_all (\<lambda>(t, H). t \<le> 50) btc_eth_requests \<and>
   length (entries_for ''BTC'' (registerAll 30000 btc_eth_requests [])) = 1 \<and>
   getAll (registerRequest 30000 50 ''BTC'' (registerAll 30000 btc_eth_requests [])) =
     [''BTC'', ''ETH''] \<and>
   entries_for ''ETH'' (registerRequest 30000 50 ''BTC'' (registerAll 30000 btc_eth_requests [])) =
     entries_for ''ETH'' (registerAll 30000 btc_eth_requests []) \<and>
   map expiresAt (entries_for ''BTC'' (registerAll 30000 btc_eth_requests [])) = [30020] \<and>
   map expiresAt (entries_for ''BTC''
     (registerRequest 30000 50 ''BTC'' (registerAll 30000 btc_eth_requests []))) = [30050]"
proof -
  let ?S = "registerAll 30000 btc_eth_requests []"
  note t = registerRequest_idempotent
    [of "''BTC''" 30000 btc_eth_requests ?S 50 "''ETH''"]
  have h1: "''BTC'' \<in> set (getAll ?S)" by code_simp
  have h2: "''ETH'' \<noteq> ''BTC''" by simp
  have h3: "list_all (\<lambda>(t, H). t \<le> 50) btc_eth_requests" by code_simp
  have g: "getAll ?S = [''BTC'', ''ETH'']" by code_simp
  have n: "length (entries_for ''BTC'' ?S) \<noteq> 0" by code_simp
  have e: "map expiresAt (entries_for ''BTC'' ?S) = [30020]" by code_simp
  have e': "map expiresAt (entries_for ''BTC'' (registerRequest 30000 50 ''BTC'' ?S)) = [30050]"
    by code_simp
  from t n have c1: "length (entries_for ''BTC'' ?S) = 1" by linarith
  from t h1 g have c2: "getAll (registerRequest 30000 50 ''BTC'' ?S) = [''BTC'', ''ETH'']"
    by simp
  from t h2 have c3: "entries_for ''ETH'' (registerRequest 30000 50 ''BTC'' ?S) =
      entries_for ''ETH'' ?S"
    by blast
  from h1 h2 h3 c1 c2 c3 e e' show ?thesis by blast
qed

section \<open>The request coordinator without retries\<close>

text \<open>
  Claim C6. With \<open>CACHE_POLLING_MAX_RETRIES = 0\<close>, \<open>handle(F)\<close> serves what the cache
  holds for \<open>F\<close> at the time of the call, an entry of any age or nothing, after no
  backoff wait; the fingerprint is registered.
\<close>

theorem handle_without_retries:
  "outcome_of (handle 0 ttl now cacheAt S F) = Served (cacheAt 0 F) \<and>
   waits (handle 0 ttl now cacheAt S F) = 0 \<and>
   subscriptions (handle 0 ttl now cacheAt S F) = registerRequest ttl now F S"
  by (simp add: handle_def)

theorem handle_without_retries_witness:
  "writtenAt stale_entry < 1000 \<and>
   outcome_of (handle 0 30000 1000 (\<lambda>k. btc_cache) [] ''BTC'') = Served (Some stale_entry) \<and>
   outcome_of (handle 0 30000 1000 (\<lambda>k. btc_cache) [] ''ETH'') = Served None \<and>
   waits (handle 0 30000 1000 (\<lambda>k. btc_cache) [] ''BTC'') = 0"
proof -
  have w: "writtenAt stale_entry < 1000" by (simp add: stale_entry_def)
  have b: "btc_cache ''BTC'' = Some stale_entry" and e: "btc_cache ''ETH'' = None"
    by (simp_all add: btc_cache_def)
  from handle_without_retries [of 30000 1000 "\<lambda>k. btc_cache" "[]" "''BTC''"] b
  have 1: "outcome_of (handle 0 30000 1000 (\<lambda>k. btc_cache) [] ''BTC'') = Served (Some stale_entry)"
    and 3: "waits (handle 0 30000 1000 (\<lambda>k. btc_cache) [] ''BTC'') = 0"
    by simp_all
  from handle_without_retries [of 30000 1000 "\<lambda>k. btc_cache" "[]" "''ETH''"] e
  have 2: "outcome_of (handle 0 30000 1000 (\<lambda>k. btc_cache) [] ''ETH'') = Served None"
    by simp
  from w 1 2 3 show ?thesis by blast
qed

text \<open>With retries the number of waits is bounded by the number of retries, and an
  entry written before the request is not served: the request times out with it.\<close>

lemma pollCache_waits_upper: "snd (pollCache n k cacheAt F t) \<le> k + n"
proof (induction n arbitrary: k)
  case 0
  then show ?case by simp
next
  case (Suc n)
  from Suc [of "Suc k"] show ?case by simp
qed

lemma handle_retries_stale:
  "outcome_of (handle 2 30000 1000 (\<lambda>k. btc_cache) [] ''BTC'') = TimedOut (Some stale_entry) \<and>
   waits (handle 2 30000 1000 (\<lambda>k. btc_cache) [] ''BTC'') = 1"
  by (simp add: handle_def numeral_2_eq_2 fresh_def btc_cache_def stale_entry_def)

section \<open>The batch transport: no call before the period has passed\<close>








lemma run_ticks_every_period:
  assumes "active \<noteq> []" and "0 \<le> period rl" and "lastRequestAt rl + period rl \<le> T"
  shows "run_ticks pol rl (ticks_from T (period rl) active n) = times_from T (period rl) n"
  using assms(3)
proof (induction n arbitrary: rl T)
  case 0
  then show ?case by simp
next
  case (Suc n)
  from Suc.prems have d: "msUntilNextExecution rl T = 0"
    by (simp add: msUntilNextExecution_def)
  with assms(1) have b: "backgroundExecute pol rl T active = (onExecute rl T, Some T)"
    by (simp add: backgroundExecute_def)
  have "lastRequestAt (onExecute rl T) + period (onExecute rl T) \<le> T + period rl"
    and p: "period (onExecute rl T) = period rl"
    by (simp_all add: onExecute_def)
  from Suc.IH [of "onExecute rl T" "T + period rl"] this
  have "run_ticks pol (onExecute rl T) (ticks_from (T + period rl) (period rl) active n) =
      times_from (T + period rl) (period rl) n"
    by simp
  with b show ?case by simp
qed















text \<open>Examples of runs. Under the skip policy a tick between two due times is lost, so
  ticks every 800 ms give fewer calls, never more.\<close>

lemma limiter_one_per_second:
  "initialize 2592000000 one_per_second 0 = \<lparr>period = 1000, lastRequestAt = 0\<rparr>"
  by code_simp

lemma run_ticks_wait_800:
  "run_ticks Wait (initialize 2592000000 one_per_second 0) (ticks_from 5000 800 [''BTC''] 3) =
     [5000, 6000, 7000]"
  by (simp add: limiter_one_per_second eval_nat_numeral backgroundExecute_def
      msUntilNextExecution_def onExecute_def)

lemma run_ticks_skip_800:
  "run_ticks Skip (initialize 2592000000 one_per_second 0) (ticks_from 5000 800 [''BTC''] 4) =
     [5000, 6600]"
  by (simp add: limiter_one_per_second eval_nat_numeral backgroundExecute_def
      msUntilNextExecution_def onExecute_def)

lemma run_ticks_idle: "run_ticks pol rl (ticks_from T i [] n) = []"
  by (induction n arbitrary: T) (simp_all add: backgroundExecute_def)

end
